theory Spec2Isabelle
  imports Main
begin

section \<open>Elements: inline style, attributes, dataset\<close>

text \<open>
  DOM nodes are objects held by reference; a node is named here by its reference.
\<close>

type_synonym node = nat

text \<open>
  Modelled from the spec: the enum \<open>DarkModeDatasetNames\<close> is declared in
  \<open>roosterjs-editor-types\<close>, outside the two modules verified here. Its members are the
  four reserved dataset keys the table \<open>ColorAttributeName\<close> names: the original CSS text
  colour, the original HTML text colour attribute, the original CSS background colour and
  the original HTML background colour attribute.
\<close>

datatype DarkModeDatasetNames =
    OriginalStyleColor
  | OriginalStyleBackgroundColor
  | OriginalAttributeColor
  | OriginalAttributeBackgroundColor

text \<open>
  An inline style declaration block maps a property name to its value and priority
  (\<open>''important''\<close> or empty); a dataset maps a key to a string, a missing key reading
  as \<open>undefined\<close>; \<open>getAttribute\<close> answers \<open>null\<close> for a missing attribute.
\<close>

type_synonym CSSStyleDeclaration = "string \<rightharpoonup> string \<times> string"

type_synonym DOMStringMap = "DarkModeDatasetNames \<rightharpoonup> string"

record HTMLElement =
  style :: CSSStyleDeclaration
  attributes :: "string \<rightharpoonup> string"
  dataset :: DOMStringMap

text \<open>
  The platform's \<open>style.getPropertyValue\<close> and \<open>style.setProperty\<close>: a property that is
  not set reads as the empty string, and setting the empty string removes the property.
  Values are kept as they are given: parsing and normalisation of CSS values by the
  browser is not modelled.
\<close>

definition getPropertyValue :: "CSSStyleDeclaration \<Rightarrow> string \<Rightarrow> string" where
  "getPropertyValue st prop = (case st prop of None \<Rightarrow> [] | Some (v, priority) \<Rightarrow> v)"

definition setProperty ::
  "CSSStyleDeclaration \<Rightarrow> string \<Rightarrow> string \<Rightarrow> string \<Rightarrow> CSSStyleDeclaration" where
  "setProperty st prop v priority = (if v = [] then st(prop := None) else st(prop \<mapsto> (v, priority)))"

definition getAttribute :: "HTMLElement \<Rightarrow> string \<Rightarrow> string option" where
  "getAttribute element name = attributes element name"

definition setAttribute :: "HTMLElement \<Rightarrow> string \<Rightarrow> string \<Rightarrow> HTMLElement" where
  "setAttribute element name v = element \<lparr> attributes := (attributes element)(name \<mapsto> v) \<rparr>"

definition removeAttribute :: "HTMLElement \<Rightarrow> string \<Rightarrow> HTMLElement" where
  "removeAttribute element name = element \<lparr> attributes := (attributes element)(name := None) \<rparr>"

text \<open>
  JavaScript truthiness of a value that is a string, \<open>null\<close> or \<open>undefined\<close>: only a
  non-empty string is truthy. \<open>a || b\<close> is \<open>a\<close> when \<open>a\<close> is truthy and \<open>b\<close> otherwise.
\<close>

fun truthy :: "string option \<Rightarrow> bool" where
  "truthy None = False"
| "truthy (Some s) = (s \<noteq> [])"

definition jsOr :: "string option \<Rightarrow> string option \<Rightarrow> string option" where
  "jsOr a b = (if truthy a then a else b)"

section \<open>Selection resolution: \<open>getSelectionRangeEx\<close>\<close>

text \<open>
  A DOM \<open>Range\<close>. The resolver reads \<open>startContainer\<close> and the \<open>collapsed\<close> flag only.
\<close>

record Range =
  startContainer :: node
  startOffset :: nat
  endContainer :: node
  endOffset :: nat
  collapsed :: bool

text \<open>
  A recorded selection path \<open>{ start: number[], end: number[] }\<close>.
\<close>

record SelectionPath =
  pathStart :: "nat list"
  pathEnd :: "nat list"

record TableSelectionCoordinates =
  firstCell :: "nat \<times> nat"
  lastCell :: "nat \<times> nat"

text \<open>
  Modelled from the spec: \<open>SelectionRangeEx\<close> is declared in \<open>roosterjs-editor-types\<close>.
  It is a tagged union on \<open>type\<close>, \<open>SelectionRangeTypes.Normal\<close> or
  \<open>SelectionRangeTypes.TableSelection\<close>, with the fields the resolver fills in. An entry
  of \<open>ranges\<close> may be \<open>null\<close> (or \<open>undefined\<close>): \<open>None\<close>.
\<close>

datatype SelectionRangeEx =
    Normal (ranges: "Range option list") (areAllCollapsed: bool)
  | TableSelection (ranges: "Range option list") (areAllCollapsed: bool)
      (table: "node option") (coordinates: "TableSelectionCoordinates option")

text \<open>
  Modelled from the spec: \<open>EditorCore\<close> and its plugin states are declared in
  \<open>roosterjs-editor-types\<close>; the records hold the fields the two functions read. The
  lifecycle state has the dark mode fields of the colour transform and the shadow edit
  fields of the resolver. \<open>onExternalContentTransform\<close> is a caller's function that
  rewrites one element in place.
\<close>

record LifecyclePluginState =
  isDarkMode :: bool
  onExternalContentTransform :: "(HTMLElement \<Rightarrow> HTMLElement) option"
  getDarkColor :: "string \<Rightarrow> string"
  shadowEditFragment :: "node option"
  shadowEditSelectionPath :: "SelectionPath option"
  shadowEditTableSelectionPath :: "SelectionPath list option"

record DOMEventPluginState =
  selectionRange :: "Range option"
  tableSelectionRange :: "SelectionRangeEx option"

text \<open>
  \<open>hasFocus\<close> is the answer of \<open>core.api.hasFocus(core)\<close>.
\<close>

record CoreApi =
  hasFocus :: bool

record EditorCore =
  contentDiv :: node
  lifecycle :: LifecyclePluginState
  domEvent :: DOMEventPluginState
  api :: CoreApi

text \<open>
  What the resolver reads from outside the core: the live platform selection
  (\<open>defaultView?.getSelection()\<close>, \<open>None\<close> when there is no window or no selection
  object, else its ranges, so that \<open>rangeCount\<close> is the length and \<open>getRangeAt(0)\<close> the
  head), and the three utilities imported from \<open>roosterjs-editor-dom\<close>, which are
  taken as parameters.
\<close>

record Platform =
  getSelection :: "Range list option"
  createRange :: "node \<Rightarrow> nat list \<Rightarrow> nat list \<Rightarrow> Range"
  findClosestElementAncestor :: "node \<Rightarrow> node \<Rightarrow> string \<Rightarrow> node option"
  contains :: "node \<Rightarrow> Range \<Rightarrow> bool"

text \<open>
  The only exception the resolver can raise by itself: reading a property of
  \<open>undefined\<close>.
\<close>

datatype error = TypeError

text \<open>
  \<open>ranges.filter(range => range?.collapsed).length == ranges.length\<close>
\<close>

definition checkAllCollapsed :: "Range option list \<Rightarrow> bool" where
  "checkAllCollapsed rs =
     (length (filter (\<lambda>range. case range of None \<Rightarrow> False | Some r \<Rightarrow> collapsed r) rs)
        = length rs)"

definition createNormalSelectionEx :: "Range option list \<Rightarrow> SelectionRangeEx" where
  "createNormalSelectionEx rs = Normal rs (checkAllCollapsed rs)"

text \<open>
  The resolver. In the table branch \<open>ranges[0].startContainer\<close> is evaluated while the
  result object is built: with no first range it throws, which is the \<open>Inl\<close> result.
  An empty array is truthy in JavaScript, so a recorded but empty table path list takes
  the table branch.
\<close>

definition getSelectionRangeEx :: "Platform \<Rightarrow> EditorCore \<Rightarrow> error + SelectionRangeEx" where
  "getSelectionRangeEx pf core =
     (case shadowEditFragment (lifecycle core) of
        Some fragment \<Rightarrow>
          (case shadowEditTableSelectionPath (lifecycle core) of
             Some paths \<Rightarrow>
               (let rs = map (\<lambda>path. Some (createRange pf (contentDiv core)
                                 (pathStart path) (pathEnd path))) paths
                in case rs of
                     Some r # rest \<Rightarrow>
                       Inr (TableSelection rs (checkAllCollapsed rs)
                              (findClosestElementAncestor pf (startContainer r)
                                 (contentDiv core) ''table'')
                              None)
                   | _ \<Rightarrow> Inl TypeError)
           | None \<Rightarrow>
               (let shadowRange =
                      (case shadowEditSelectionPath (lifecycle core) of
                         None \<Rightarrow> None
                       | Some path \<Rightarrow>
                           Some (createRange pf (contentDiv core)
                                   (pathStart path) (pathEnd path)))
                in Inr (createNormalSelectionEx [shadowRange])))
      | None \<Rightarrow>
          (let fallback =
                 (case tableSelectionRange (domEvent core) of
                    Some cached \<Rightarrow> cached
                  | None \<Rightarrow> createNormalSelectionEx [selectionRange (domEvent core)])
           in if hasFocus (api core) then
                (case tableSelectionRange (domEvent core) of
                   Some cached \<Rightarrow> Inr cached
                 | None \<Rightarrow>
                     (case getSelection pf of
                        Some (range0 # others) \<Rightarrow>
                          if contains pf (contentDiv core) range0
                          then Inr (createNormalSelectionEx [Some range0])
                          else Inr fallback
                      | _ \<Rightarrow> Inr fallback))
              else Inr fallback))"

text \<open>
  The collapsed check in the words of the specification: the number of ranges whose
  \<open>collapsed\<close> flag is true, a missing range counting as not collapsed.
\<close>

primrec collapsedCount :: "Range option list \<Rightarrow> nat" where
  "collapsedCount [] = 0"
| "collapsedCount (x # xs) =
     (case x of
        None \<Rightarrow> collapsedCount xs
      | Some r \<Rightarrow> (if collapsed r then Suc (collapsedCount xs) else collapsedCount xs))"

text \<open>
  The descriptors the resolver builds itself: every result but the cached table
  selection, which it hands on as it found it.
\<close>

definition builtByResolver :: "EditorCore \<Rightarrow> bool" where
  "builtByResolver core =
     (shadowEditFragment (lifecycle core) \<noteq> None \<or> tableSelectionRange (domEvent core) = None)"

section \<open>Colour transformation: \<open>transformColor\<close>\<close>

text \<open>
  One row of the table \<open>ColorAttributeName\<close>: the entries under the four keys of
  \<open>ColorAttributeEnum\<close>.
\<close>

record ColorAttributeNames =
  CssColor :: string
  HtmlColor :: string
  CssDataSet :: DarkModeDatasetNames
  HtmlDataSet :: DarkModeDatasetNames

definition ColorAttributeName :: "ColorAttributeNames list" where
  "ColorAttributeName =
     [ \<lparr> CssColor = ''color'', HtmlColor = ''color'',
         CssDataSet = OriginalStyleColor, HtmlDataSet = OriginalAttributeColor \<rparr>,
       \<lparr> CssColor = ''background-color'', HtmlColor = ''bgcolor'',
         CssDataSet = OriginalStyleBackgroundColor,
         HtmlDataSet = OriginalAttributeBackgroundColor \<rparr> ]"

text \<open>
  Modelled from the spec: the enum \<open>ColorTransformDirection\<close> of \<open>roosterjs-editor-types\<close>,
  light to dark or dark to light.
\<close>

datatype ColorTransformDirection = LightToDark | DarkToLight

text \<open>
  Modelled from the spec: \<open>getComputedStyles\<close> is imported from \<open>roosterjs-editor-dom\<close>,
  outside the two modules verified here. It is the "computed-style retrieval" utility:
  the value the platform resolves for each requested property of the element, in the
  order the properties are requested. \<open>resolved\<close> is the platform's computed style of
  the element in its present state.
\<close>

definition getComputedStyles ::
  "(HTMLElement \<Rightarrow> string \<Rightarrow> string) \<Rightarrow> HTMLElement \<Rightarrow> string list \<Rightarrow> string list" where
  "getComputedStyles resolved element styleNames = map (resolved element) styleNames"

text \<open>
  \<open>xs[i]\<close> on a JavaScript array: \<open>undefined\<close> out of range.
\<close>

definition at :: "string list \<Rightarrow> nat \<Rightarrow> string option" where
  "at xs i = (if i < length xs then Some (xs ! i) else None)"

definition getValueOrDefault :: "string option \<Rightarrow> string option \<Rightarrow> string option" where
  "getValueOrDefault v defaultValue =
     (if truthy v \<and> v \<noteq> Some ''undefined'' \<and> v \<noteq> Some ''null'' then v else defaultValue)"

text \<open>
  The colour handed to \<open>getDarkColor\<close>:
  \<open>computedValues[index] || styleColor || attrColor\<close>.
\<close>

definition darkColorSource :: "string list \<Rightarrow> nat \<Rightarrow> string \<Rightarrow> string option \<Rightarrow> string option" where
  "darkColorSource computedValues index styleColor attrColor =
     jsOr (jsOr (at computedValues index) (Some styleColor)) attrColor"

text \<open>
  A \<open>null\<close> given where the platform or \<open>getDarkColor\<close> expects a string is read as the
  empty string. In \<open>transformToLightDarkOperation\<close> the guard makes \<open>styleColor\<close> or
  \<open>attrColor\<close> truthy, so the colour source is a non-empty string there; in
  \<open>transformToLightModeOperation\<close> the default is the empty string itself.
\<close>

definition asString :: "string option \<Rightarrow> string" where
  "asString v = (case v of None \<Rightarrow> [] | Some s \<Rightarrow> s)"

text \<open>
  The light to dark rewrite of one channel. \<open>styleColor || ''\<close> is \<open>styleColor\<close>, the
  empty string being the only falsy string.
\<close>

definition transformToLightDarkOperation ::
  "(HTMLElement \<Rightarrow> string \<Rightarrow> string) \<Rightarrow> HTMLElement \<Rightarrow> string \<Rightarrow> DarkModeDatasetNames
     \<Rightarrow> string \<Rightarrow> DarkModeDatasetNames \<Rightarrow> nat \<Rightarrow> (string \<Rightarrow> string) \<Rightarrow> HTMLElement" where
  "transformToLightDarkOperation resolved element cssColor cssDataSet htmlColor htmlDataSet
       index getDarkColorFn =
     (let computedValues = getComputedStyles resolved element [''color'', ''background-color''];
          styleColor = getPropertyValue (style element) cssColor;
          attrColor = getAttribute element htmlColor
      in if \<not> truthy (dataset element cssDataSet) \<and>
            \<not> truthy (dataset element htmlDataSet) \<and>
            (truthy (Some styleColor) \<or> truthy attrColor) \<and>
            styleColor \<noteq> ''inherit''
         then
           (let newColor =
                  getDarkColorFn (asString (darkColorSource computedValues index styleColor attrColor));
                element1 = element \<lparr> style :=
                             setProperty (style element) cssColor newColor ''important'' \<rparr>;
                element2 = element1 \<lparr> dataset := (dataset element1)(cssDataSet \<mapsto> styleColor) \<rparr>
            in case attrColor of
                 None \<Rightarrow> element2
               | Some a \<Rightarrow>
                   if a \<noteq> [] then
                     (let element3 = setAttribute element2 htmlColor newColor
                      in element3 \<lparr> dataset := (dataset element3)(htmlDataSet \<mapsto> a) \<rparr>)
                   else element2)
         else element)"

text \<open>
  The dark to light reset of one channel.
\<close>

definition transformToLightModeOperation ::
  "HTMLElement \<Rightarrow> string \<Rightarrow> DarkModeDatasetNames \<Rightarrow> string \<Rightarrow> DarkModeDatasetNames
     \<Rightarrow> HTMLElement" where
  "transformToLightModeOperation element cssColor cssDataSet htmlColor htmlDataSet =
     (let element1 = element \<lparr> style :=
                       setProperty (style element) cssColor
                         (asString (getValueOrDefault (dataset element cssDataSet) (Some []))) [] \<rparr>;
          element2 = element1 \<lparr> dataset := (dataset element1)(cssDataSet := None) \<rparr>;
          v = dataset element2 htmlDataSet;
          element3 =
            (if truthy (getValueOrDefault v None)
             then setAttribute element2 htmlColor (asString v)
             else removeAttribute element2 htmlColor)
      in element3 \<lparr> dataset := (dataset element3)(htmlDataSet := None) \<rparr>)"

definition transformToLightMode :: "HTMLElement \<Rightarrow> HTMLElement" where
  "transformToLightMode element =
     (let textColor = ColorAttributeName ! 0;
          backgroundColor = ColorAttributeName ! 1;
          element1 =
            (if \<not> truthy (dataset element (CssDataSet textColor)) \<and>
                \<not> truthy (dataset element (HtmlDataSet textColor))
             then transformToLightModeOperation element
                    (CssColor textColor) (CssDataSet textColor)
                    (HtmlColor textColor) (HtmlDataSet textColor)
             else element)
      in if \<not> truthy (dataset element1 (CssDataSet backgroundColor)) \<and>
            \<not> truthy (dataset element1 (HtmlDataSet backgroundColor))
         then transformToLightModeOperation element1
                (CssColor backgroundColor) (CssDataSet backgroundColor)
                (HtmlColor backgroundColor) (HtmlDataSet backgroundColor)
         else element1)"

definition transformToDarkMode ::
  "(HTMLElement \<Rightarrow> string \<Rightarrow> string) \<Rightarrow> HTMLElement \<Rightarrow> (string \<Rightarrow> string) \<Rightarrow> HTMLElement" where
  "transformToDarkMode resolved element getDarkColorFn =
     (let textColor = ColorAttributeName ! 0;
          backgroundColor = ColorAttributeName ! 1;
          element1 =
            (if \<not> truthy (dataset element (CssDataSet textColor)) \<and>
                \<not> truthy (dataset element (HtmlDataSet textColor))
             then transformToLightDarkOperation resolved element
                    (CssColor textColor) (CssDataSet textColor)
                    (HtmlColor textColor) (HtmlDataSet textColor) 1 getDarkColorFn
             else element)
      in if \<not> truthy (dataset element1 (CssDataSet backgroundColor)) \<and>
            \<not> truthy (dataset element1 (HtmlDataSet backgroundColor))
         then transformToLightDarkOperation resolved element1
                (CssColor backgroundColor) (CssDataSet backgroundColor)
                (HtmlColor backgroundColor) (HtmlDataSet backgroundColor) 0 getDarkColorFn
         else element1)"

subsection \<open>The document and the walk over it\<close>

text \<open>
  What \<open>safeInstanceOf\<close> tells about a node, and the objects behind the references.
  An element of a foreign namespace may lack \<open>style\<close> or \<open>dataset\<close>.
\<close>

datatype NodeKind = HTMLElementNode | DocumentFragmentNode | OtherNode

record DomNode =
  nodeKind :: NodeKind
  nodeStyle :: "CSSStyleDeclaration option"
  nodeDataset :: "DOMStringMap option"
  nodeAttributes :: "string \<rightharpoonup> string"

text \<open>
  The document as the platform presents it: the object behind each reference, the answer
  of \<open>getElementsByTagName('*')\<close> and \<open>querySelectorAll('*')\<close> on each node (its descendant
  elements, in document order), and the computed style of each node.
\<close>

record Dom =
  nodeAt :: "node \<Rightarrow> DomNode"
  elementsBelow :: "node \<Rightarrow> node list"
  resolvedStyle :: "node \<Rightarrow> HTMLElement \<Rightarrow> string \<Rightarrow> string"

text \<open>
  \<open>toArray\<close> copies the live collection, so the result is a list of references fixed at
  the time of the call.
\<close>

definition getAll :: "Dom \<Rightarrow> node \<Rightarrow> bool \<Rightarrow> node list" where
  "getAll doc rootNode includeSelf =
     (case nodeKind (nodeAt doc rootNode) of
        HTMLElementNode \<Rightarrow> (if includeSelf then [rootNode] else []) @ elementsBelow doc rootNode
      | DocumentFragmentNode \<Rightarrow> elementsBelow doc rootNode
      | OtherNode \<Rightarrow> [])"

text \<open>
  The calls \<open>transformColor\<close> makes are recorded, in order, beside the document.
\<close>

datatype Event = CallbackInvoked | TransformInvoked node

text \<open>
  One round of the \<open>forEach\<close>:
  \<open>element?.dataset && element.style && transformFunction(element)\<close>, the element being
  rewritten in place.
\<close>

definition transformElement ::
  "((HTMLElement \<Rightarrow> string \<Rightarrow> string) \<Rightarrow> HTMLElement \<Rightarrow> HTMLElement)
     \<Rightarrow> Dom \<times> Event list \<Rightarrow> node \<Rightarrow> Dom \<times> Event list" where
  "transformElement transformFunction state element =
     (let doc = fst state; obj = nodeAt doc element
      in case nodeDataset obj of
           None \<Rightarrow> state
         | Some ds \<Rightarrow>
             (case nodeStyle obj of
                None \<Rightarrow> state
              | Some st \<Rightarrow>
                  (let e = transformFunction (resolvedStyle doc element)
                             \<lparr> style = st, attributes = nodeAttributes obj, dataset = ds \<rparr>
                   in (doc \<lparr> nodeAt := (nodeAt doc)(element :=
                                obj \<lparr> nodeStyle := Some (style e),
                                      nodeDataset := Some (dataset e),
                                      nodeAttributes := attributes e \<rparr>) \<rparr>,
                       snd state @ [TransformInvoked element]))))"

text \<open>
  \<open>transformColor\<close>. The callback is a function on the document, \<open>None\<close> when the caller
  gives none (\<open>callback?.()\<close>); it is taken to leave the core as it is. The external
  transform and the two built-in ones rewrite the element they are given.
\<close>

definition transformColor ::
  "EditorCore \<Rightarrow> Dom \<Rightarrow> node \<Rightarrow> bool \<Rightarrow> (Dom \<Rightarrow> Dom) option \<Rightarrow> ColorTransformDirection
     \<Rightarrow> Dom \<times> Event list" where
  "transformColor core doc rootNode includeSelf callback direction =
     (let elementsToTransform =
            (if isDarkMode (lifecycle core) then getAll doc rootNode includeSelf else []);
          transformFunction =
            (if direction = DarkToLight then (\<lambda>resolved. transformToLightMode)
             else case onExternalContentTransform (lifecycle core) of
                    Some external \<Rightarrow> (\<lambda>resolved. external)
                  | None \<Rightarrow> (\<lambda>resolved element.
                      transformToDarkMode resolved element (getDarkColor (lifecycle core))));
          afterCallback =
            (case callback of
               None \<Rightarrow> (doc, [])
             | Some cb \<Rightarrow> (cb doc, [CallbackInvoked]))
      in foldl (transformElement transformFunction) afterCallback elementsToTransform)"

text \<open>
  The condition under which \<open>transformToLightDarkOperation\<close> rewrites a channel, as a
  predicate of its own.
\<close>

definition channelGuard ::
  "HTMLElement \<Rightarrow> string \<Rightarrow> DarkModeDatasetNames \<Rightarrow> string \<Rightarrow> DarkModeDatasetNames \<Rightarrow> bool" where
  "channelGuard element cssColor cssDataSet htmlColor htmlDataSet =
     (\<not> truthy (dataset element cssDataSet) \<and>
      \<not> truthy (dataset element htmlDataSet) \<and>
      (truthy (Some (getPropertyValue (style element) cssColor)) \<or>
       truthy (getAttribute element htmlColor)) \<and>
      getPropertyValue (style element) cssColor \<noteq> ''inherit'')"

text \<open>
  The elements the \<open>forEach\<close> of \<open>transformColor\<close> hands to the transform function: those
  with a dataset and a style.
\<close>

definition transformable :: "Dom \<Rightarrow> node \<Rightarrow> bool" where
  "transformable doc element =
     (nodeDataset (nodeAt doc element) \<noteq> None \<and> nodeStyle (nodeAt doc element) \<noteq> None)"

section \<open>Example states\<close>

definition examplePlatform :: Platform where
  "examplePlatform =
     \<lparr> getSelection = None,
       createRange = (\<lambda>root s e.
         \<lparr> startContainer = length s, startOffset = 0,
           endContainer = length e, endOffset = 0, collapsed = (s = e) \<rparr>),
       findClosestElementAncestor = (\<lambda>n root tag. Some 7),
       contains = (\<lambda>root r. True) \<rparr>"

definition caret :: Range where
  "caret = \<lparr> startContainer = 3, startOffset = 1, endContainer = 3, endOffset = 1,
             collapsed = True \<rparr>"

definition span :: Range where
  "span = \<lparr> startContainer = 3, startOffset = 1, endContainer = 4, endOffset = 2,
            collapsed = False \<rparr>"

definition exampleCore :: EditorCore where
  "exampleCore =
     \<lparr> contentDiv = 0,
       lifecycle = \<lparr> isDarkMode = True, onExternalContentTransform = None,
                     getDarkColor = (\<lambda>c. ''dark-'' @ c),
                     shadowEditFragment = None, shadowEditSelectionPath = None,
                     shadowEditTableSelectionPath = None \<rparr>,
       domEvent = \<lparr> selectionRange = Some span, tableSelectionRange = None \<rparr>,
       api = \<lparr> hasFocus = False \<rparr> \<rparr>"

definition shadowCore :: EditorCore where
  "shadowCore =
     exampleCore \<lparr> lifecycle := (lifecycle exampleCore)
       \<lparr> shadowEditFragment := Some 9,
         shadowEditSelectionPath := Some \<lparr> pathStart = [0, 1], pathEnd = [0, 1] \<rparr>,
         shadowEditTableSelectionPath := None \<rparr> \<rparr>"

definition emptyTablePathCore :: EditorCore where
  "emptyTablePathCore =
     exampleCore \<lparr> lifecycle := (lifecycle exampleCore)
       \<lparr> shadowEditFragment := Some 9,
         shadowEditSelectionPath := None,
         shadowEditTableSelectionPath := Some [] \<rparr> \<rparr>"

subsection \<open>Example elements and documents\<close>

definition redText :: HTMLElement where
  "redText = \<lparr> style = [''color'' \<mapsto> (''red'', [])], attributes = Map.empty,
                dataset = Map.empty \<rparr>"

definition inheritText :: HTMLElement where
  "inheritText = \<lparr> style = [''color'' \<mapsto> (''inherit'', [])],
                    attributes = [''color'' \<mapsto> ''blue'', ''bgcolor'' \<mapsto> ''white''],
                    dataset = Map.empty \<rparr>"

definition exampleResolved :: "HTMLElement \<Rightarrow> string \<Rightarrow> string" where
  "exampleResolved element prop =
     (if prop = ''color'' then ''rgb(255, 0, 0)''
      else if prop = ''background-color'' then ''rgb(255, 255, 255)''
      else [])"

definition noResolved :: "HTMLElement \<Rightarrow> string \<Rightarrow> string" where
  "noResolved element prop = []"

definition darker :: "string \<Rightarrow> string" where
  "darker c = ''dark-'' @ c"

definition plainNode :: DomNode where
  "plainNode = \<lparr> nodeKind = HTMLElementNode, nodeStyle = Some Map.empty,
                  nodeDataset = Some Map.empty, nodeAttributes = Map.empty \<rparr>"

definition redNode :: DomNode where
  "redNode = plainNode \<lparr> nodeStyle := Some [''color'' \<mapsto> (''red'', [])] \<rparr>"

definition textNode :: DomNode where
  "textNode = \<lparr> nodeKind = OtherNode, nodeStyle = None, nodeDataset = None,
                 nodeAttributes = Map.empty \<rparr>"

text \<open>
  A container (node 0) with one red child (node 1); the callback \<open>insertChild\<close> puts a
  second red element (node 2) below the container.
\<close>

definition exampleDoc :: Dom where
  "exampleDoc =
     \<lparr> nodeAt = (\<lambda>n. if n = 0 then plainNode else if n = 1 then redNode else textNode),
       elementsBelow = (\<lambda>n. if n = 0 then [1] else []),
       resolvedStyle = (\<lambda>n. noResolved) \<rparr>"

definition insertChild :: "Dom \<Rightarrow> Dom" where
  "insertChild doc =
     doc \<lparr> nodeAt := (nodeAt doc)(2 := redNode),
           elementsBelow := (elementsBelow doc)(0 := elementsBelow doc 0 @ [2]) \<rparr>"

section \<open>Properties of the selection resolver\<close>

lemma filter_length_collapsedCount:
  "length (filter (\<lambda>range. case range of None \<Rightarrow> False | Some r \<Rightarrow> collapsed r) rs)
     = collapsedCount rs"
  by (induction rs) (auto split: option.splits)

lemma checkAllCollapsed_count: "checkAllCollapsed rs = (collapsedCount rs = length rs)"
  by (simp add: checkAllCollapsed_def filter_length_collapsedCount)

lemma checkAllCollapsed_Nil: "checkAllCollapsed []"
  by (simp add: checkAllCollapsed_def)

lemma getSelectionRangeEx_collapsed:
  assumes "getSelectionRangeEx pf core = Inr d" and "builtByResolver core"
  shows "areAllCollapsed d = checkAllCollapsed (ranges d)"
  using assms
  by (auto simp: getSelectionRangeEx_def builtByResolver_def createNormalSelectionEx_def
        Let_def split: option.splits list.splits if_splits)

text \<open>
  C5. In every descriptor the resolver builds, \<open>areAllCollapsed\<close> is true exactly when the
  number K of ranges whose collapsed flag is true (a missing range is not collapsed)
  equals the number N of ranges; and for the empty range sequence the check is true.
\<close>

theorem areAllCollapsed_iff_count:
  assumes "getSelectionRangeEx pf core = Inr d" and "builtByResolver core"
  shows "(areAllCollapsed d \<longleftrightarrow> collapsedCount (ranges d) = length (ranges d))
         \<and> checkAllCollapsed []
         \<and> areAllCollapsed (createNormalSelectionEx []) "
  using getSelectionRangeEx_collapsed [OF assms]
  by (simp add: checkAllCollapsed_count checkAllCollapsed_Nil createNormalSelectionEx_def)

theorem areAllCollapsed_iff_count_witness:
  "getSelectionRangeEx examplePlatform shadowCore
     = Inr (Normal [Some \<lparr> startContainer = 2, startOffset = 0, endContainer = 2,
                           endOffset = 0, collapsed = True \<rparr>] True)
   \<and> builtByResolver shadowCore
   \<and> collapsedCount (ranges (Normal [Some \<lparr> startContainer = 2, startOffset = 0,
        endContainer = 2, endOffset = 0, collapsed = True \<rparr>] True)) = 1
   \<and> getSelectionRangeEx examplePlatform exampleCore = Inr (Normal [Some span] False)
   \<and> collapsedCount [Some span] = 0"
proof -
  have r: "getSelectionRangeEx examplePlatform shadowCore
     = Inr (Normal [Some \<lparr> startContainer = 2, startOffset = 0, endContainer = 2,
                           endOffset = 0, collapsed = True \<rparr>] True)"
    by (simp add: getSelectionRangeEx_def shadowCore_def exampleCore_def examplePlatform_def
          createNormalSelectionEx_def checkAllCollapsed_def)
  have b: "builtByResolver shadowCore"
    by (simp add: builtByResolver_def shadowCore_def exampleCore_def)
  have e: "getSelectionRangeEx examplePlatform exampleCore = Inr (Normal [Some span] False)"
    by (simp add: getSelectionRangeEx_def exampleCore_def examplePlatform_def
          createNormalSelectionEx_def checkAllCollapsed_def span_def)
  show ?thesis
    using areAllCollapsed_iff_count [OF r b] r b e
    by (simp add: span_def)
qed

text \<open>
  C6. While a shadow fragment is attached, the result does not depend on the cached
  \<open>domEvent\<close> ranges, on the focus state or on the live platform selection: two calls whose
  cores agree on \<open>contentDiv\<close> and on the lifecycle state, with the same path utilities,
  give the same result.
\<close>

theorem shadow_precedence:
  assumes "shadowEditFragment (lifecycle core1) \<noteq> None"
    and "contentDiv core1 = contentDiv core2"
    and "lifecycle core1 = lifecycle core2"
    and "createRange pf1 = createRange pf2"
    and "findClosestElementAncestor pf1 = findClosestElementAncestor pf2"
  shows "getSelectionRangeEx pf1 core1 = getSelectionRangeEx pf2 core2"
proof -
  from assms(1) obtain fragment where
    "shadowEditFragment (lifecycle core1) = Some fragment" by auto
  with assms(2-5) show ?thesis
    by (simp add: getSelectionRangeEx_def Let_def split: option.splits list.splits)
qed

theorem shadow_precedence_witness:
  "shadowEditFragment (lifecycle shadowCore) \<noteq> None
   \<and> domEvent (shadowCore \<lparr> domEvent := \<lparr> selectionRange = Some caret,
          tableSelectionRange = Some (TableSelection [Some span] False (Some 5) None) \<rparr>,
        api := \<lparr> hasFocus = True \<rparr> \<rparr>) \<noteq> domEvent shadowCore
   \<and> getSelectionRangeEx (examplePlatform \<lparr> getSelection := Some [span] \<rparr>)
         (shadowCore \<lparr> domEvent := \<lparr> selectionRange = Some caret,
            tableSelectionRange = Some (TableSelection [Some span] False (Some 5) None) \<rparr>,
          api := \<lparr> hasFocus = True \<rparr> \<rparr>)
       = getSelectionRangeEx examplePlatform shadowCore"
proof -
  have s: "shadowEditFragment (lifecycle shadowCore) \<noteq> None"
    by (simp add: shadowCore_def exampleCore_def)
  have d: "domEvent (shadowCore \<lparr> domEvent := \<lparr> selectionRange = Some caret,
          tableSelectionRange = Some (TableSelection [Some span] False (Some 5) None) \<rparr>,
        api := \<lparr> hasFocus = True \<rparr> \<rparr>) \<noteq> domEvent shadowCore"
    by (simp add: shadowCore_def exampleCore_def)
  show ?thesis
    using shadow_precedence [OF s, of
        "shadowCore \<lparr> domEvent := \<lparr> selectionRange = Some caret,
            tableSelectionRange = Some (TableSelection [Some span] False (Some 5) None) \<rparr>,
          api := \<lparr> hasFocus = True \<rparr> \<rparr>"
        examplePlatform "examplePlatform \<lparr> getSelection := Some [span] \<rparr>"] s d
    by simp
qed

text \<open>
  C8. With no shadow fragment, no focus and no cached table selection, the resolver
  returns the cached \<open>domEvent.selectionRange\<close>, also when it is \<open>null\<close>, as the single
  range of a Normal descriptor.
\<close>

theorem no_focus_fallback:
  assumes "shadowEditFragment (lifecycle core) = None"
    and "\<not> hasFocus (api core)"
    and "tableSelectionRange (domEvent core) = None"
  shows "getSelectionRangeEx pf core
           = Inr (Normal [selectionRange (domEvent core)]
                    (checkAllCollapsed [selectionRange (domEvent core)]))"
  using assms
  by (simp add: getSelectionRangeEx_def createNormalSelectionEx_def)

theorem no_focus_fallback_witness:
  "shadowEditFragment (lifecycle exampleCore) = None
   \<and> \<not> hasFocus (api exampleCore)
   \<and> tableSelectionRange (domEvent exampleCore) = None
   \<and> getSelectionRangeEx (examplePlatform \<lparr> getSelection := Some [caret] \<rparr>) exampleCore
       = Inr (Normal [Some span] False)
   \<and> getSelectionRangeEx examplePlatform
         (exampleCore \<lparr> domEvent := \<lparr> selectionRange = None, tableSelectionRange = None \<rparr> \<rparr>)
       = Inr (Normal [None] False)"
proof -
  have a: "shadowEditFragment (lifecycle exampleCore) = None"
    and b: "\<not> hasFocus (api exampleCore)"
    and c: "tableSelectionRange (domEvent exampleCore) = None"
    by (simp_all add: exampleCore_def)
  have n: "getSelectionRangeEx examplePlatform
         (exampleCore \<lparr> domEvent := \<lparr> selectionRange = None, tableSelectionRange = None \<rparr> \<rparr>)
       = Inr (Normal [None] False)"
    by (simp add: getSelectionRangeEx_def exampleCore_def createNormalSelectionEx_def
          checkAllCollapsed_def)
  show ?thesis
    using no_focus_fallback [OF a b c, of "examplePlatform \<lparr> getSelection := Some [caret] \<rparr>"]
      a b c n
    by (simp add: exampleCore_def checkAllCollapsed_def span_def)
qed

text \<open>
  C7. The resolver is claimed never to throw, also on a recorded table selection path list
  that is empty. On that input the table branch reads \<open>ranges[0].startContainer\<close> with
  no first range: the call ends in a \<open>TypeError\<close>, whatever the platform.
\<close>

theorem empty_table_path_throws:
  "getSelectionRangeEx pf emptyTablePathCore = Inl TypeError"
  by (simp add: getSelectionRangeEx_def emptyTablePathCore_def exampleCore_def)

section \<open>Properties of the colour transformation\<close>

subsection \<open>One channel of the light to dark rewrite\<close>

lemma transformToLightDarkOperation_blocked:
  "\<not> channelGuard e c cds h hds \<Longrightarrow> transformToLightDarkOperation r e c cds h hds i g = e"
  unfolding transformToLightDarkOperation_def channelGuard_def Let_def
  by (simp only: if_not_P if_False)

lemma transformToLightDarkOperation_closes:
  "\<not> channelGuard (transformToLightDarkOperation r e c cds h hds i g) c cds h hds"
proof (cases "channelGuard e c cds h hds")
  case False
  then show ?thesis by (simp add: transformToLightDarkOperation_blocked)
next
  case True
  then show ?thesis
    by (auto simp: transformToLightDarkOperation_def channelGuard_def Let_def
          setAttribute_def getAttribute_def split: option.splits)
qed

lemma transformToLightDarkOperation_dataset_frame:
  "k \<noteq> cds \<Longrightarrow> k \<noteq> hds \<Longrightarrow>
   dataset (transformToLightDarkOperation r e c cds h hds i g) k = dataset e k"
  by (simp add: transformToLightDarkOperation_def Let_def setAttribute_def split: option.splits)

lemma transformToLightDarkOperation_style_frame:
  "p \<noteq> c \<Longrightarrow> style (transformToLightDarkOperation r e c cds h hds i g) p = style e p"
  by (simp add: transformToLightDarkOperation_def Let_def setAttribute_def setProperty_def
        split: option.splits)

lemma transformToLightDarkOperation_attributes_frame:
  "a \<noteq> h \<Longrightarrow> attributes (transformToLightDarkOperation r e c cds h hds i g) a = attributes e a"
  by (simp add: transformToLightDarkOperation_def Let_def setAttribute_def split: option.splits)

lemma channelGuard_frame:
  assumes "c' \<noteq> c" "h' \<noteq> h" "cds' \<noteq> cds" "cds' \<noteq> hds" "hds' \<noteq> cds" "hds' \<noteq> hds"
  shows "channelGuard (transformToLightDarkOperation r e c cds h hds i g) c' cds' h' hds'
         = channelGuard e c' cds' h' hds'"
  using assms
  by (simp add: channelGuard_def transformToLightDarkOperation_dataset_frame
        transformToLightDarkOperation_style_frame
        transformToLightDarkOperation_attributes_frame getPropertyValue_def getAttribute_def)

text \<open>
  The two guards of \<open>transformToDarkMode\<close> repeat the first two conjuncts of the guard
  inside the operation, so the function is the two operations in sequence.
\<close>

lemma transformToDarkMode_ops:
  "transformToDarkMode r e g =
     transformToLightDarkOperation r
       (transformToLightDarkOperation r e ''color'' OriginalStyleColor ''color''
          OriginalAttributeColor 1 g)
       ''background-color'' OriginalStyleBackgroundColor ''bgcolor''
       OriginalAttributeBackgroundColor 0 g"
proof -
  have skip: "\<And>x c cds h hds i.
     (if \<not> truthy (dataset x cds) \<and> \<not> truthy (dataset x hds)
      then transformToLightDarkOperation r x c cds h hds i g else x)
     = transformToLightDarkOperation r x c cds h hds i g"
    by (simp add: transformToLightDarkOperation_blocked channelGuard_def)
  show ?thesis
    by (simp add: transformToDarkMode_def ColorAttributeName_def Let_def skip)
qed

text \<open>
  Inside its guard the operation hands a non-empty string to \<open>getDarkColor\<close>.
\<close>

lemma darkColorSource_truthy:
  "channelGuard e c cds h hds \<Longrightarrow>
   truthy (darkColorSource cv i (getPropertyValue (style e) c) (getAttribute e h))"
  by (auto simp: channelGuard_def darkColorSource_def jsOr_def)

subsection \<open>Idempotence of the light to dark transform\<close>

text \<open>
  C3. Applying the light to dark transform to an element twice gives the same element
  state (inline style, attributes, dataset) as applying it once, whatever colour mapping
  and computed styles the second pass meets: a channel the first pass has rewritten
  carries a data key, and a channel it has left alone is left alone again.
\<close>

theorem transformToDarkMode_idempotent:
  "transformToDarkMode r2 (transformToDarkMode r1 element g1) g2
     = transformToDarkMode r1 element g1"
proof -
  let ?t = "transformToLightDarkOperation r1 element ''color'' OriginalStyleColor ''color''
              OriginalAttributeColor 1 g1"
  let ?b = "transformToLightDarkOperation r1 ?t ''background-color''
              OriginalStyleBackgroundColor ''bgcolor'' OriginalAttributeBackgroundColor 0 g1"
  have "\<not> channelGuard ?b ''color'' OriginalStyleColor ''color'' OriginalAttributeColor"
    by (simp add: channelGuard_frame transformToLightDarkOperation_closes)
  then have tc: "transformToLightDarkOperation r2 ?b ''color'' OriginalStyleColor ''color''
                   OriginalAttributeColor 1 g2 = ?b"
    by (rule transformToLightDarkOperation_blocked)
  have "\<not> channelGuard ?b ''background-color'' OriginalStyleBackgroundColor ''bgcolor''
            OriginalAttributeBackgroundColor"
    by (rule transformToLightDarkOperation_closes)
  then have bg: "transformToLightDarkOperation r2 ?b ''background-color''
                   OriginalStyleBackgroundColor ''bgcolor'' OriginalAttributeBackgroundColor 0 g2
                 = ?b"
    by (rule transformToLightDarkOperation_blocked)
  show ?thesis
    by (simp only: transformToDarkMode_ops tc bg)
qed

theorem transformToDarkMode_idempotent_witness:
  "transformToDarkMode exampleResolved (transformToDarkMode exampleResolved redText darker) darker
     = transformToDarkMode exampleResolved redText darker
   \<and> dataset (transformToDarkMode exampleResolved redText darker) OriginalStyleColor
       = Some ''red''
   \<and> transformToDarkMode exampleResolved redText darker \<noteq> redText"
proof -
  have d: "dataset (transformToDarkMode exampleResolved redText darker) OriginalStyleColor
             = Some ''red''"
    by (simp add: transformToDarkMode_def ColorAttributeName_def
          transformToLightDarkOperation_def redText_def getPropertyValue_def getAttribute_def
          Let_def)
  have "dataset redText OriginalStyleColor = None"
    by (simp add: redText_def)
  with d have n: "transformToDarkMode exampleResolved redText darker \<noteq> redText"
    by auto
  show ?thesis
    using transformToDarkMode_idempotent [of exampleResolved exampleResolved redText darker darker]
      d n
    by simp
qed

subsection \<open>The inherit guard\<close>

text \<open>
  C9. An element whose inline \<open>color\<close> is the literal \<open>inherit\<close> keeps its \<open>color\<close> style,
  its \<open>color\<close> attribute and the two dataset keys of the text colour channel through the
  light to dark transform, whatever its computed style.
\<close>

theorem transformToDarkMode_keeps_inherit:
  assumes "getPropertyValue (style element) ''color'' = ''inherit''"
  shows "style (transformToDarkMode resolved element g) ''color'' = style element ''color''
         \<and> attributes (transformToDarkMode resolved element g) ''color''
             = attributes element ''color''
         \<and> dataset (transformToDarkMode resolved element g) OriginalStyleColor
             = dataset element OriginalStyleColor
         \<and> dataset (transformToDarkMode resolved element g) OriginalAttributeColor
             = dataset element OriginalAttributeColor"
proof -
  have "\<not> channelGuard element ''color'' OriginalStyleColor ''color'' OriginalAttributeColor"
    using assms by (simp add: channelGuard_def)
  then have tc: "\<And>i. transformToLightDarkOperation resolved element ''color''
                        OriginalStyleColor ''color'' OriginalAttributeColor i g = element"
    by (rule transformToLightDarkOperation_blocked)
  show ?thesis
    by (simp add: transformToDarkMode_ops tc transformToLightDarkOperation_dataset_frame
          transformToLightDarkOperation_style_frame
          transformToLightDarkOperation_attributes_frame)
qed

theorem transformToDarkMode_keeps_inherit_witness:
  "getPropertyValue (style inheritText) ''color'' = ''inherit''
   \<and> style (transformToDarkMode exampleResolved inheritText darker) ''color''
       = Some (''inherit'', [])
   \<and> attributes (transformToDarkMode exampleResolved inheritText darker) ''color''
       = Some ''blue''
   \<and> dataset (transformToDarkMode exampleResolved inheritText darker) OriginalStyleColor = None
   \<and> dataset (transformToDarkMode exampleResolved inheritText darker) OriginalAttributeColor
       = None
   \<and> dataset (transformToDarkMode exampleResolved inheritText darker)
       OriginalAttributeBackgroundColor = Some ''white''"
proof -
  have h: "getPropertyValue (style inheritText) ''color'' = ''inherit''"
    by (simp add: inheritText_def getPropertyValue_def)
  have bg: "dataset (transformToDarkMode exampleResolved inheritText darker)
              OriginalAttributeBackgroundColor = Some ''white''"
    by (simp add: transformToDarkMode_def ColorAttributeName_def
          transformToLightDarkOperation_def inheritText_def getPropertyValue_def
          getAttribute_def setAttribute_def getComputedStyles_def exampleResolved_def
          darkColorSource_def jsOr_def at_def asString_def darker_def Let_def)
  show ?thesis
    using transformToDarkMode_keeps_inherit [OF h, of exampleResolved darker] h bg
    by (simp add: inheritText_def)
qed

subsection \<open>The dark to light transform\<close>

lemma transformToLightMode_text:
  assumes "\<not> truthy (dataset element OriginalStyleColor)"
    and "\<not> truthy (dataset element OriginalAttributeColor)"
  shows "style (transformToLightMode element) ''color'' = None
         \<and> attributes (transformToLightMode element) ''color'' = None
         \<and> dataset (transformToLightMode element) OriginalStyleColor = None
         \<and> dataset (transformToLightMode element) OriginalAttributeColor = None"
  using assms
  by (cases "dataset element OriginalStyleColor"; cases "dataset element OriginalAttributeColor")
     (simp_all add: transformToLightMode_def ColorAttributeName_def
        transformToLightModeOperation_def getValueOrDefault_def asString_def setProperty_def
        setAttribute_def removeAttribute_def Let_def)

lemma transformToLightMode_background:
  assumes "\<not> truthy (dataset element OriginalStyleBackgroundColor)"
    and "\<not> truthy (dataset element OriginalAttributeBackgroundColor)"
  shows "style (transformToLightMode element) ''background-color'' = None
         \<and> attributes (transformToLightMode element) ''bgcolor'' = None
         \<and> dataset (transformToLightMode element) OriginalStyleBackgroundColor = None
         \<and> dataset (transformToLightMode element) OriginalAttributeBackgroundColor = None"
  using assms
  by (cases "dataset element OriginalStyleBackgroundColor";
      cases "dataset element OriginalAttributeBackgroundColor")
     (simp_all add: transformToLightMode_def ColorAttributeName_def
        transformToLightModeOperation_def getValueOrDefault_def asString_def setProperty_def
        setAttribute_def removeAttribute_def Let_def)

text \<open>
  C2, as the code has it. For each of the two channels: when neither data key of the
  channel holds a non-empty value, the dark to light transform clears the channel. The
  CSS property is set from the empty default, which removes it; the HTML attribute is
  removed; both data keys are deleted.
\<close>

theorem transformToLightMode_clears_unrecorded:
  assumes "names \<in> set ColorAttributeName"
    and "\<not> truthy (dataset element (CssDataSet names))"
    and "\<not> truthy (dataset element (HtmlDataSet names))"
  shows "style (transformToLightMode element) (CssColor names) = None
         \<and> attributes (transformToLightMode element) (HtmlColor names) = None
         \<and> dataset (transformToLightMode element) (CssDataSet names) = None
         \<and> dataset (transformToLightMode element) (HtmlDataSet names) = None"
proof -
  from assms(1) consider
      (tc) "names = \<lparr> CssColor = ''color'', HtmlColor = ''color'',
                CssDataSet = OriginalStyleColor, HtmlDataSet = OriginalAttributeColor \<rparr>"
    | (bg) "names = \<lparr> CssColor = ''background-color'', HtmlColor = ''bgcolor'',
                CssDataSet = OriginalStyleBackgroundColor,
                HtmlDataSet = OriginalAttributeBackgroundColor \<rparr>"
    by (auto simp: ColorAttributeName_def)
  then show ?thesis
  proof cases
    case tc
    with assms(2,3) show ?thesis
      using transformToLightMode_text [of element] by simp
  next
    case bg
    with assms(2,3) show ?thesis
      using transformToLightMode_background [of element] by simp
  qed
qed

theorem transformToLightMode_clears_unrecorded_witness:
  "\<lparr> CssColor = ''color'', HtmlColor = ''color'', CssDataSet = OriginalStyleColor,
      HtmlDataSet = OriginalAttributeColor \<rparr> \<in> set ColorAttributeName
   \<and> \<not> truthy (dataset redText OriginalStyleColor)
   \<and> \<not> truthy (dataset redText OriginalAttributeColor)
   \<and> style redText ''color'' = Some (''red'', [])
   \<and> style (transformToLightMode redText) ''color'' = None
   \<and> attributes (transformToLightMode redText) ''color'' = None
   \<and> dataset (transformToLightMode redText) OriginalStyleColor = None
   \<and> dataset (transformToLightMode redText) OriginalAttributeColor = None"
proof -
  let ?names = "\<lparr> CssColor = ''color'', HtmlColor = ''color'',
                   CssDataSet = OriginalStyleColor, HtmlDataSet = OriginalAttributeColor \<rparr>"
  have m: "?names \<in> set ColorAttributeName"
    by (simp add: ColorAttributeName_def)
  have a: "\<not> truthy (dataset redText (CssDataSet ?names))"
    and b: "\<not> truthy (dataset redText (HtmlDataSet ?names))"
    by (simp_all add: redText_def)
  show ?thesis
    using transformToLightMode_clears_unrecorded [OF m a b] m a b
    by (simp add: redText_def)
qed

text \<open>
  C2, as it is stated, fails in both directions. An element with inline \<open>color: red\<close> and
  no recorded original loses its colour in the dark to light transform; an element that
  the light to dark transform has rewritten, with \<open>red\<close> recorded as the original, keeps
  the dark colour and the record.
\<close>

theorem transformToLightMode_reset_counterexample:
  "dataset redText OriginalStyleColor = None
   \<and> dataset redText OriginalAttributeColor = None
   \<and> style redText ''color'' = Some (''red'', [])
   \<and> style (transformToLightMode redText) ''color'' = None
   \<and> dataset (transformToDarkMode noResolved redText darker) OriginalStyleColor = Some ''red''
   \<and> style (transformToDarkMode noResolved redText darker) ''color''
       = Some (''dark-red'', ''important'')
   \<and> style (transformToLightMode (transformToDarkMode noResolved redText darker)) ''color''
       = Some (''dark-red'', ''important'')
   \<and> dataset (transformToLightMode (transformToDarkMode noResolved redText darker))
       OriginalStyleColor = Some ''red''"
  by (simp add: transformToLightMode_def transformToDarkMode_def ColorAttributeName_def
        transformToLightDarkOperation_def transformToLightModeOperation_def
        getValueOrDefault_def removeAttribute_def
        redText_def getPropertyValue_def getAttribute_def
        setProperty_def getComputedStyles_def noResolved_def darkColorSource_def jsOr_def
        at_def asString_def darker_def Let_def)

text \<open>
  C1. The round trip is claimed to restore the inline style and to delete the data keys.
  For an element with inline \<open>color: red\<close>, no attribute and an empty dataset, the light to
  dark transform records \<open>red\<close> under the style data key; the dark to light transform then
  finds that key set, skips the channel, and leaves the dark colour and the key in place.
\<close>

theorem round_trip_keeps_dark_color:
  "style redText ''color'' = Some (''red'', [])
   \<and> dataset redText = Map.empty
   \<and> style (transformToLightMode (transformToDarkMode noResolved redText darker)) ''color''
       = Some (''dark-red'', ''important'')
   \<and> dataset (transformToLightMode (transformToDarkMode noResolved redText darker))
       OriginalStyleColor = Some ''red''"
  by (simp add: transformToLightMode_def transformToDarkMode_def ColorAttributeName_def
        transformToLightDarkOperation_def transformToLightModeOperation_def
        getValueOrDefault_def removeAttribute_def redText_def getPropertyValue_def
        getAttribute_def setProperty_def getComputedStyles_def noResolved_def
        darkColorSource_def jsOr_def at_def asString_def darker_def Let_def)

subsection \<open>The colour handed to \<open>getDarkColor\<close>\<close>

text \<open>
  C4. The colour handed to \<open>getDarkColor\<close> for the text colour channel is claimed to be
  the computed \<open>color\<close>. For an element with inline \<open>color: red\<close>, computed \<open>color\<close>
  \<open>rgb(255, 0, 0)\<close> and computed \<open>background-color\<close> \<open>rgb(255, 255, 255)\<close>, the new text
  colour is the dark version of the computed background colour: the text channel reads
  index 1 of the computed values, which are requested as \<open>color\<close>, \<open>background-color\<close>.
\<close>

theorem text_channel_reads_computed_background:
  "getComputedStyles exampleResolved redText [''color'', ''background-color'']
     = [''rgb(255, 0, 0)'', ''rgb(255, 255, 255)'']
   \<and> style (transformToDarkMode exampleResolved redText darker) ''color''
       = Some (darker ''rgb(255, 255, 255)'', ''important'')"
  by (simp add: transformToDarkMode_def ColorAttributeName_def
        transformToLightDarkOperation_def redText_def getPropertyValue_def getAttribute_def
        setProperty_def getComputedStyles_def exampleResolved_def darkColorSource_def jsOr_def
        at_def asString_def darker_def Let_def)

subsection \<open>Collection, callback, rewriting\<close>

lemma transformable_transformElement:
  "transformable (fst (transformElement tf st x)) n = transformable (fst st) n"
  by (simp add: transformElement_def transformable_def Let_def split: option.splits)

lemma snd_transformElement:
  "snd (transformElement tf st x) =
     snd st @ (if transformable (fst st) x then [TransformInvoked x] else [])"
  by (simp add: transformElement_def transformable_def Let_def split: option.splits)

lemma nodeAt_transformElement:
  "n \<noteq> x \<Longrightarrow> nodeAt (fst (transformElement tf st x)) n = nodeAt (fst st) n"
  by (simp add: transformElement_def Let_def split: option.splits)

lemma foldl_trace:
  "snd (foldl (transformElement tf) st xs) =
     snd st @ map TransformInvoked (filter (transformable (fst st)) xs)"
proof (induction xs arbitrary: st)
  case Nil
  then show ?case by simp
next
  case (Cons x xs)
  have same: "transformable (fst (transformElement tf st x)) = transformable (fst st)"
    by (rule ext) (rule transformable_transformElement)
  show ?case
    by (simp add: Cons.IH snd_transformElement same)
qed

lemma foldl_frame:
  "n \<notin> set xs \<Longrightarrow> nodeAt (fst (foldl (transformElement tf) st xs)) n = nodeAt (fst st) n"
  by (induction xs arbitrary: st) (simp_all add: nodeAt_transformElement)

lemma transformColor_unfold:
  "\<exists>tf. transformColor core doc rootNode includeSelf (Some cb) direction =
     foldl (transformElement tf) (cb doc, [CallbackInvoked])
       (if isDarkMode (lifecycle core) then getAll doc rootNode includeSelf else [])"
  unfolding transformColor_def Let_def option.case
  by (rule exI) (rule refl)

text \<open>
  C10. The elements to transform are collected before the callback runs: an element that
  is not among them, such as one the callback inserts below the root, is in the state the
  callback left it in and is never handed to the transform function. The callback is
  invoked exactly once, before any element is transformed, in either direction and also
  when dark mode is off and the list of elements is empty.
\<close>

theorem transformColor_collects_before_callback:
  assumes "element \<notin> set (if isDarkMode (lifecycle core)
                              then getAll doc rootNode includeSelf else [])"
  shows "nodeAt (fst (transformColor core doc rootNode includeSelf (Some cb) direction)) element
           = nodeAt (cb doc) element
         \<and> snd (transformColor core doc rootNode includeSelf (Some cb) direction)
           = CallbackInvoked # map TransformInvoked
               (filter (transformable (cb doc))
                  (if isDarkMode (lifecycle core)
                   then getAll doc rootNode includeSelf else []))
         \<and> TransformInvoked element
             \<notin> set (snd (transformColor core doc rootNode includeSelf (Some cb) direction))
         \<and> count_list (snd (transformColor core doc rootNode includeSelf (Some cb) direction))
             CallbackInvoked = 1"
proof -
  let ?xs = "if isDarkMode (lifecycle core) then getAll doc rootNode includeSelf else []"
  obtain tf where run:
    "transformColor core doc rootNode includeSelf (Some cb) direction =
       foldl (transformElement tf) (cb doc, [CallbackInvoked]) ?xs"
    using transformColor_unfold by blast
  have frame: "nodeAt (fst (foldl (transformElement tf) (cb doc, [CallbackInvoked]) ?xs)) element
                 = nodeAt (cb doc) element"
    using assms foldl_frame [of element ?xs tf "(cb doc, [CallbackInvoked])"] by simp
  have trace: "snd (foldl (transformElement tf) (cb doc, [CallbackInvoked]) ?xs)
                 = CallbackInvoked # map TransformInvoked (filter (transformable (cb doc)) ?xs)"
    by (simp add: foldl_trace)
  have absent: "TransformInvoked element
                  \<notin> set (CallbackInvoked # map TransformInvoked (filter (transformable (cb doc)) ?xs))"
    using assms by auto
  have once: "count_list (CallbackInvoked # map TransformInvoked (filter (transformable (cb doc)) ?xs))
                CallbackInvoked = 1"
  proof -
    have "CallbackInvoked \<notin> set (map TransformInvoked (filter (transformable (cb doc)) ?xs))"
      by auto
    then show ?thesis by (simp add: count_list_0_iff)
  qed
  show ?thesis
    unfolding run using frame trace absent once by simp
qed

theorem transformColor_collects_before_callback_witness:
  "2 \<notin> set (if isDarkMode (lifecycle exampleCore) then getAll exampleDoc 0 False else [])
   \<and> 2 \<in> set (elementsBelow (insertChild exampleDoc) 0)
   \<and> nodeAt (fst (transformColor exampleCore exampleDoc 0 False (Some insertChild) LightToDark)) 2
       = redNode
   \<and> snd (transformColor exampleCore exampleDoc 0 False (Some insertChild) LightToDark)
       = [CallbackInvoked, TransformInvoked 1]
   \<and> snd (transformColor (exampleCore \<lparr> lifecycle := (lifecycle exampleCore)
                \<lparr> isDarkMode := False \<rparr> \<rparr>) exampleDoc 0 False (Some insertChild) DarkToLight)
       = [CallbackInvoked]"
proof -
  have g: "getAll exampleDoc 0 False = [1]"
    by (simp add: getAll_def exampleDoc_def plainNode_def)
  have d: "isDarkMode (lifecycle exampleCore)"
    by (simp add: exampleCore_def)
  have a: "2 \<notin> set (if isDarkMode (lifecycle exampleCore)
                       then getAll exampleDoc 0 False else [])"
    by (simp add: g d)
  have i: "2 \<in> set (elementsBelow (insertChild exampleDoc) 0)"
    by (simp add: insertChild_def exampleDoc_def)
  have n: "nodeAt (insertChild exampleDoc) 2 = redNode"
    by (simp add: insertChild_def)
  have t: "transformable (insertChild exampleDoc) 1"
    by (simp add: transformable_def insertChild_def exampleDoc_def redNode_def plainNode_def)
  have l: "snd (transformColor (exampleCore \<lparr> lifecycle := (lifecycle exampleCore)
                \<lparr> isDarkMode := False \<rparr> \<rparr>) exampleDoc 0 False (Some insertChild) DarkToLight)
       = [CallbackInvoked]"
    by (simp add: transformColor_def)
  show ?thesis
    using transformColor_collects_before_callback
            [OF a, of insertChild LightToDark] a i n t l
    by (simp add: g d)
qed

end
